theory Spec2Isabelle
  imports Main
begin

section \<open>Sources and their de-duplication (ChatMessageBubble.tsx)\<close>

text \<open>
  Modelled from the spec: the type \<open>Source\<close> is declared in \<open>SourceBubble\<close>, which is
  not among the source files. The spec describes it as "URL plus metadata"; the only
  field the code under study reads is \<open>url\<close>.
\<close>

record source =
  url :: string
  title :: string

text \<open>
  \<open>filterSources\<close> walks the source list once with \<open>forEach\<close>, carrying three
  mutable containers: the list \<open>filtered\<close>, the map \<open>urlMap\<close> from a URL to the
  position \<open>i\<close> (in the original list) where it was first seen, and the map
  \<open>indexMap\<close> from positions of the original list to numbers.
\<close>

record filter_state =
  filtered :: "source list"
  urlMap :: "string \<rightharpoonup> nat"
  indexMap :: "nat \<rightharpoonup> nat"

definition filterSources_body :: "source \<Rightarrow> nat \<Rightarrow> filter_state \<Rightarrow> filter_state" where
  "filterSources_body src i st =
     (case urlMap st (url src) of
        None \<Rightarrow>
          st\<lparr> urlMap := (urlMap st)(url src \<mapsto> i),
              indexMap := (indexMap st)(i \<mapsto> length (filtered st)),
              filtered := filtered st @ [src] \<rparr>
      | Some index \<Rightarrow>
          st\<lparr> indexMap := (indexMap st)(i \<mapsto> index) \<rparr>)"

fun filterSources_forEach :: "source list \<Rightarrow> nat \<Rightarrow> filter_state \<Rightarrow> filter_state" where
  "filterSources_forEach [] i st = st"
| "filterSources_forEach (src # rest) i st =
     filterSources_forEach rest (Suc i) (filterSources_body src i st)"

definition filterSources :: "source list \<Rightarrow> filter_state" where
  "filterSources srcs =
     filterSources_forEach srcs 0
       \<lparr> filtered = [], urlMap = Map.empty, indexMap = Map.empty \<rparr>"

section \<open>Citation markers (ChatMessageBubble.tsx, createAnswerElements)\<close>

text \<open>
  A string is the list of the bytes of its UTF-8 encoding. The content is such a list;
  for content in ASCII a position in it is the index that JavaScript uses. It is
  scanned with the regular expression
  \<open>/\[\^?(\d+)\^?\]/g\<close>. A match
  is an opening bracket, an optional caret, a non-empty run of decimal digits, an
  optional caret and a closing bracket. The greedy run of digits never has to give a
  digit back: the character after a shorter run would be a digit, which is neither a
  caret nor a closing bracket. So the match at a position, when there is one, is unique.
\<close>

definition isDigit :: "char \<Rightarrow> bool" where
  "isDigit c = (c \<in> set ''0123456789'')"

definition optCaret :: "string \<Rightarrow> nat \<times> string" where
  "optCaret s = (case s of c # r \<Rightarrow> (if c = CHR ''^'' then (1, r) else (0, s)) | [] \<Rightarrow> (0, s))"

text \<open>
  \<open>match_here s\<close> tries the expression at the start of \<open>s\<close> and returns the captured
  digits (\<open>match[1]\<close>) and the length of the whole match (\<open>match[0].length\<close>).
\<close>

definition match_here :: "string \<Rightarrow> (string \<times> nat) option" where
  "match_here s =
     (case s of
        [] \<Rightarrow> None
      | c # r1 \<Rightarrow>
          if c \<noteq> CHR ''['' then None
          else
            let (c1, r2) = optCaret r1;
                ds = takeWhile isDigit r2;
                r3 = dropWhile isDigit r2;
                (c2, r4) = optCaret r3
            in if ds = [] then None
               else (case r4 of
                       [] \<Rightarrow> None
                     | e # _ \<Rightarrow>
                         if e = CHR '']'' then Some (ds, 1 + c1 + length ds + c2 + 1)
                         else None))"

record regex_match =
  index :: nat
  group1 :: string
  whole_length :: nat

text \<open>
  \<open>matchAll\<close> with the global flag: the scan restarts right after a match, and one
  character further where there is none.
\<close>

function matchAll_from :: "nat \<Rightarrow> string \<Rightarrow> regex_match list" where
  "matchAll_from i [] = []"
| "matchAll_from i (c # cs) =
     (case match_here (c # cs) of
        None \<Rightarrow> matchAll_from (Suc i) cs
      | Some (ds, len) \<Rightarrow>
          \<lparr> index = i, group1 = ds, whole_length = len \<rparr>
            # matchAll_from (i + len) (drop len (c # cs)))"
  by pat_completeness auto
termination
proof (relation "measure (\<lambda>(i, s). length s)")
  show "wf (measure (\<lambda>(i, s). length s))" by simp
next
  fix i :: nat and c :: char and cs :: string
  show "((Suc i, cs), (i, c # cs)) \<in> measure (\<lambda>(i, s). length s)" by simp
next
  fix i :: nat and c :: char and cs :: string and x2 :: "string \<times> nat" and ds :: string and len :: nat
  assume m: "match_here (c # cs) = Some x2" and x: "(ds, len) = x2"
  from m x have "0 < len"
    by (auto simp: match_here_def Let_def split: if_splits prod.splits list.splits)
  then show "((i + len, drop len (c # cs)), (i, c # cs)) \<in> measure (\<lambda>(i, s). length s)"
    by simp
qed

definition matchAll :: "string \<Rightarrow> regex_match list" where
  "matchAll content = matchAll_from 0 content"

text \<open>
  \<open>parseInt(match[1], 10)\<close> on a non-empty string of decimal digits. The model
  computes the exact natural number. JavaScript rounds a value of \<open>2^53\<close> or more to a
  double; such a value is in both cases larger than every key of the index map, whose
  keys are positions of an array.
\<close>

definition digitVal :: "char \<Rightarrow> nat" where
  "digitVal c = of_char c - 48"

definition parseInt :: "string \<Rightarrow> nat" where
  "parseInt ds = foldl (\<lambda>n c. 10 * n + digitVal c) 0 ds"

text \<open>
  The elements that \<open>createAnswerElements\<close> returns. A \<open>Span\<close> carries the number of
  its key (\<open>content:${prevIndex}\<close>) and its inner HTML; an \<open>InlineCitation\<close> carries
  the number of its key (\<open>citation:${prevIndex}\<close>), its \<open>source\<close> and its
  \<open>sourceNumber\<close>. The highlighting state and the mouse handlers of the citation do
  not influence which elements are produced and are left out.
\<close>

datatype element =
  Span nat string
| InlineCitation nat source nat

definition slice :: "string \<Rightarrow> nat \<Rightarrow> nat \<Rightarrow> string" where
  "slice s start stop = take (stop - start) (drop start s)"

text \<open>
  \<open>sourceIndexMap.get(sourceNum) ?? 10\<close>: a number that is not a key of the map
  resolves to the constant 10.
\<close>

definition resolve :: "(nat \<rightharpoonup> nat) \<Rightarrow> nat \<Rightarrow> nat" where
  "resolve sourceIndexMap sourceNum =
     (case sourceIndexMap sourceNum of None \<Rightarrow> 10 | Some r \<Rightarrow> r)"

fun answer_forEach ::
  "string \<Rightarrow> source list \<Rightarrow> (nat \<rightharpoonup> nat) \<Rightarrow> regex_match list \<Rightarrow> nat \<Rightarrow> element list
     \<Rightarrow> element list \<times> nat" where
  "answer_forEach content filteredSources sourceIndexMap [] prevIndex elements =
     (elements, prevIndex)"
| "answer_forEach content filteredSources sourceIndexMap (m # ms) prevIndex elements =
     (let sourceNum = parseInt (group1 m);
          resolvedNum = resolve sourceIndexMap sourceNum
      in if resolvedNum < length filteredSources
         then answer_forEach content filteredSources sourceIndexMap ms
                (index m + whole_length m)
                (elements @
                   [Span prevIndex (slice content prevIndex (index m)),
                    InlineCitation prevIndex (filteredSources ! resolvedNum) resolvedNum])
         else answer_forEach content filteredSources sourceIndexMap ms prevIndex elements)"

definition createAnswerElements ::
  "string \<Rightarrow> source list \<Rightarrow> (nat \<rightharpoonup> nat) \<Rightarrow> element list" where
  "createAnswerElements content filteredSources sourceIndexMap =
     (case answer_forEach content filteredSources sourceIndexMap (matchAll content) 0 [] of
        (elements, prevIndex) \<Rightarrow> elements @ [Span prevIndex (drop prevIndex content)])"

text \<open>
  The bubble of a message calls \<open>filterSources\<close> on \<open>message.sources ?? []\<close> and
  hands its two results to \<open>createAnswerElements\<close>.
\<close>

definition renderAnswer :: "string \<Rightarrow> source list \<Rightarrow> element list" where
  "renderAnswer content srcs =
     (let r = filterSources srcs
      in createAnswerElements content (filtered r) (indexMap r))"

section \<open>The chat window (ChatWindow component)\<close>

datatype role = System | User | Assistant | Function

text \<open>
  A \<open>Message\<close>. The optional fields \<open>createdAt\<close>, \<open>name\<close> and \<open>function_call\<close> are
  never written by the code under study and are left out. An optional field is an
  \<open>option\<close>: \<open>None\<close> is JavaScript's \<open>undefined\<close>.
\<close>

record message =
  msg_id :: string
  content :: string
  role :: role
  runId :: "string option"
  sources :: "source list option"

record history_entry =
  human :: string
  ai :: string

text \<open>The four React state variables of the chat window.\<close>

record chat_state =
  messages :: "message list"
  input :: string
  isLoading :: bool
  chatHistory :: "history_entry list"

text \<open>The JSON body of \<open>POST {base}/chat\<close>.\<close>

record chat_request =
  req_message :: string
  history :: "history_entry list"
  conversation_id :: string

text \<open>
  What a handler does to the outside world, in the order in which it does it: the
  class added to the message container, and the HTTP request.
\<close>

datatype chat_effect =
  ClassListAdd string
| FetchChat chat_request

fun isFetchChat :: "chat_effect \<Rightarrow> bool" where
  "isFetchChat (FetchChat r) = True"
| "isFetchChat (ClassListAdd c) = False"

subsection \<open>Typing into the input field\<close>

text \<open>The handler \<open>onChange\<close> of the input field: \<open>setInput(e.target.value)\<close>.\<close>

definition onChange :: "string \<Rightarrow> chat_state \<Rightarrow> chat_state" where
  "onChange v st = st\<lparr> input := v \<rparr>"

subsection \<open>sendMessage, up to the call of fetch\<close>

text \<open>
  The state setters of React are modelled by explicit state passing. The parameters
  are what the function reads from outside the state: whether
  \<open>messageContainerRef.current\<close> is set, the \<open>conversationId\<close> of the render, the
  string that \<open>Math.random().toString()\<close> returns, and the optional argument
  \<open>message\<close>. The result is the new state and the effects; a \<open>FetchChat\<close> among them
  means that the function now awaits the response.
\<close>

definition messageValue_of :: "string option \<Rightarrow> chat_state \<Rightarrow> string" where
  "messageValue_of message st = (case message of None \<Rightarrow> input st | Some m \<Rightarrow> m)"

definition sendMessage_submit ::
  "bool \<Rightarrow> string \<Rightarrow> string \<Rightarrow> string option \<Rightarrow> chat_state \<Rightarrow> chat_state \<times> chat_effect list" where
  "sendMessage_submit containerSet conversationId randomId message st =
     (let dom = (if containerSet then [ClassListAdd ''grow''] else [])
      in if isLoading st then (st, dom)
         else
           let messageValue = messageValue_of message st
           in if messageValue = [] then (st, dom)
              else
                (st\<lparr> input := [],
                     messages := messages st @
                       [\<lparr> msg_id = randomId, content = messageValue, role = User,
                          runId = None, sources = None \<rparr>],
                     isLoading := True \<rparr>,
                 dom @ [FetchChat \<lparr> req_message = messageValue,
                                    history = chatHistory st,
                                    conversation_id = conversationId \<rparr>]))"

subsection \<open>sendMessage, after the await\<close>

text \<open>
  The four local variables that the closure \<open>processText\<close> shares with
  \<open>sendMessage\<close>.
\<close>

record stream_locals =
  accumulatedMessage :: string
  runId_local :: "string option"
  sources_local :: "source list option"
  messageIndex :: "nat option"

definition initial_locals :: stream_locals where
  "initial_locals =
     \<lparr> accumulatedMessage = [], runId_local = None, sources_local = None,
       messageIndex = None \<rparr>"

text \<open>
  \<open>fetch\<close> either rejects, or resolves to a response whose body is null, or to a
  response with a body.
\<close>

datatype fetch_result = FetchRejected | ResponseWithoutBody | ResponseWithBody

text \<open>
  How a call stands after a step: it threw (the rejection of fetch rethrown by the
  catch block, or the error "Response body is null"), it reads the stream with the
  given locals, the stream ran to completion, the promise chain was rejected and the
  final \<open>catch\<close> logged the error, or the updater that the call handed to
  \<open>setMessages\<close> threw.
\<close>

datatype call_status =
  Rethrown
| BodyIsNull
| Reading stream_locals
| Completed
| Failed
| UpdaterThrew

definition sendMessage_resume ::
  "string \<Rightarrow> fetch_result \<Rightarrow> chat_state \<Rightarrow> chat_state \<times> chat_effect list \<times> call_status" where
  "sendMessage_resume messageValue res st =
     (case res of
        FetchRejected \<Rightarrow>
          (st\<lparr> messages := butlast (messages st),
               isLoading := False,
               input := messageValue \<rparr>, [], Rethrown)
      | ResponseWithoutBody \<Rightarrow> (st, [], BodyIsNull)
      | ResponseWithBody \<Rightarrow> (st, [], Reading initial_locals))"

subsection \<open>processText\<close>

text \<open>
  One line of the stream after \<open>JSON.parse\<close>: an object with the optional properties
  \<open>tok\<close>, \<open>run_id\<close> and \<open>sources\<close>, of the types the code assigns them to.
  \<open>"tok" in parsed\<close> is \<open>tok parsed \<noteq> None\<close>.
\<close>

record parsed_line =
  tok :: "string option"
  run_id_prop :: "string option"
  sources_prop :: "source list option"

definition consume :: "parsed_line \<Rightarrow> stream_locals \<Rightarrow> stream_locals" where
  "consume parsed v =
     (case tok parsed of
        Some t \<Rightarrow> v\<lparr> accumulatedMessage := accumulatedMessage v @ t \<rparr>
      | None \<Rightarrow>
          (case run_id_prop parsed of
             Some r \<Rightarrow> v\<lparr> runId_local := Some r \<rparr>
           | None \<Rightarrow>
               (case sources_prop parsed of
                  Some s \<Rightarrow> v\<lparr> sources_local := Some s \<rparr>
                | None \<Rightarrow> v)))"

text \<open>
  \<open>JSON.parse\<close> is a library function: it is the parameter \<open>jsonParse\<close>, which
  returns \<open>None\<close> where \<open>JSON.parse\<close> throws, and also where it returns a value that
  is not an object (the operator \<open>in\<close> then throws on the next line). The lines of a
  chunk are consumed in order; a line that does not parse rejects the promise chain. The
  locals that the earlier lines of such a chunk have changed are never read again.
\<close>

fun consume_lines ::
  "(string \<Rightarrow> parsed_line option) \<Rightarrow> string list \<Rightarrow> stream_locals \<Rightarrow> stream_locals option" where
  "consume_lines jsonParse [] v = Some v"
| "consume_lines jsonParse (l # ls) v =
     (case jsonParse l of
        None \<Rightarrow> None
      | Some parsed \<Rightarrow> consume_lines jsonParse ls (consume parsed v))"

text \<open>
  \<open>String.prototype.trim\<close> removes from both ends of a string every code point that
  ECMAScript calls white space or a line terminator. The table lists these 25 code
  points, each with its UTF-8 encoding. In a well-formed encoding a string starts (or
  ends) with the bytes of a row exactly when its first (or last) code point is the one
  of that row.
\<close>

definition whiteSpace :: "(nat \<times> string) list" where
  "whiteSpace =
     [(0x0009, [CHR 0x09]), (0x000A, [CHR 0x0A]), (0x000B, [CHR 0x0B]),
      (0x000C, [CHR 0x0C]), (0x000D, [CHR 0x0D]), (0x0020, [CHR 0x20]),
      (0x00A0, [CHR 0xC2, CHR 0xA0]),
      (0x1680, [CHR 0xE1, CHR 0x9A, CHR 0x80]),
      (0x2000, [CHR 0xE2, CHR 0x80, CHR 0x80]), (0x2001, [CHR 0xE2, CHR 0x80, CHR 0x81]),
      (0x2002, [CHR 0xE2, CHR 0x80, CHR 0x82]), (0x2003, [CHR 0xE2, CHR 0x80, CHR 0x83]),
      (0x2004, [CHR 0xE2, CHR 0x80, CHR 0x84]), (0x2005, [CHR 0xE2, CHR 0x80, CHR 0x85]),
      (0x2006, [CHR 0xE2, CHR 0x80, CHR 0x86]), (0x2007, [CHR 0xE2, CHR 0x80, CHR 0x87]),
      (0x2008, [CHR 0xE2, CHR 0x80, CHR 0x88]), (0x2009, [CHR 0xE2, CHR 0x80, CHR 0x89]),
      (0x200A, [CHR 0xE2, CHR 0x80, CHR 0x8A]),
      (0x2028, [CHR 0xE2, CHR 0x80, CHR 0xA8]), (0x2029, [CHR 0xE2, CHR 0x80, CHR 0xA9]),
      (0x202F, [CHR 0xE2, CHR 0x80, CHR 0xAF]),
      (0x205F, [CHR 0xE2, CHR 0x81, CHR 0x9F]),
      (0x3000, [CHR 0xE3, CHR 0x80, CHR 0x80]),
      (0xFEFF, [CHR 0xEF, CHR 0xBB, CHR 0xBF])]"

definition startsWith :: "string \<Rightarrow> string \<Rightarrow> bool" where
  "startsWith s p = (take (length p) s = p)"

definition endsWith :: "string \<Rightarrow> string \<Rightarrow> bool" where
  "endsWith s p = (drop (length s - length p) s = p)"

text \<open>
  The number of bytes of the white space code point at the start (at the end) of a
  string, and 0 when the string does not start (end) with one.
\<close>

definition spaceAtStart :: "string \<Rightarrow> nat" where
  "spaceAtStart s =
     (case find (\<lambda>(codePoint, bytes). startsWith s bytes) whiteSpace of
        None \<Rightarrow> 0
      | Some (codePoint, bytes) \<Rightarrow> length bytes)"

definition spaceAtEnd :: "string \<Rightarrow> nat" where
  "spaceAtEnd s =
     (case find (\<lambda>(codePoint, bytes). endsWith s bytes) whiteSpace of
        None \<Rightarrow> 0
      | Some (codePoint, bytes) \<Rightarrow> length bytes)"

function trimStart :: "string \<Rightarrow> string" where
  "trimStart s = (if spaceAtStart s = 0 then s else trimStart (drop (spaceAtStart s) s))"
  by pat_completeness auto
termination
proof (relation "measure length")
  show "wf (measure length)" by simp
next
  fix s :: string
  assume pos: "spaceAtStart s \<noteq> 0"
  have "spaceAtStart [] = 0"
    by (simp add: spaceAtStart_def whiteSpace_def startsWith_def)
  with pos have "s \<noteq> []" by auto
  with pos show "(drop (spaceAtStart s) s, s) \<in> measure length" by simp
qed

function trimEnd :: "string \<Rightarrow> string" where
  "trimEnd s = (if spaceAtEnd s = 0 then s else trimEnd (take (length s - spaceAtEnd s) s))"
  by pat_completeness auto
termination
proof (relation "measure length")
  show "wf (measure length)" by simp
next
  fix s :: string
  assume pos: "spaceAtEnd s \<noteq> 0"
  have "spaceAtEnd [] = 0"
    by (simp add: spaceAtEnd_def whiteSpace_def endsWith_def)
  with pos have "s \<noteq> []" by auto
  with pos show "(take (length s - spaceAtEnd s) s, s) \<in> measure length" by simp
qed

declare trimStart.simps [simp del] trimEnd.simps [simp del]

definition trim :: "string \<Rightarrow> string" where
  "trim s = trimEnd (trimStart s)"

text \<open>\<open>split("\n")\<close>: the newline is the byte \<open>0x0A\<close>, which no other code point uses.\<close>

fun split_newline :: "string \<Rightarrow> string list" where
  "split_newline [] = [[]]"
| "split_newline (c # cs) =
     (if c = CHR 0x0A then [] # split_newline cs
      else (case split_newline cs of
              [] \<Rightarrow> [[c]]
            | l # ls \<Rightarrow> (c # l) # ls))"

definition lines_of :: "string \<Rightarrow> string list" where
  "lines_of chunk = split_newline (trim chunk)"

text \<open>
  The updater passed to \<open>setMessages\<close>: the first call appends the assistant message
  and records its position in \<open>messageIndex\<close>, a later call overwrites three fields of
  the message at that position, whatever message that is by then. Writing a field of
  \<open>newMessages[messageIndex]\<close> throws a \<open>TypeError\<close> when the position is outside
  the list: the result is \<open>None\<close>.
\<close>

definition upsert ::
  "string \<Rightarrow> string \<Rightarrow> stream_locals \<Rightarrow> message list \<Rightarrow> (message list \<times> stream_locals) option" where
  "upsert randomId html v prevMessages =
     (case messageIndex v of
        None \<Rightarrow>
          Some (prevMessages @
                  [\<lparr> msg_id = randomId, content = html, role = Assistant,
                     runId = runId_local v, sources = sources_local v \<rparr>],
                v\<lparr> messageIndex := Some (length prevMessages) \<rparr>)
      | Some k \<Rightarrow>
          if k < length prevMessages
          then Some (prevMessages[k := (prevMessages ! k)
                        \<lparr> content := html, runId := runId_local v,
                          sources := sources_local v \<rparr>], v)
          else None)"

text \<open>
  One result of \<open>reader.read()\<close>: the promise rejects, the stream is done, or it
  delivers a chunk, given here as the text that \<open>decoder.decode\<close> returns.
\<close>

datatype read_result = ReadRejected | ReadDone | ReadValue string

text \<open>
  \<open>processText\<close> on one result. \<open>marked.parse\<close> is a library function: the
  parameter \<open>marked\<close>. When the updater throws, React cannot render the window any
  more; the model stops the call there, with the state of before the chunk.
\<close>

definition processText ::
  "(string \<Rightarrow> parsed_line option) \<Rightarrow> (string \<Rightarrow> string) \<Rightarrow> string \<Rightarrow> string \<Rightarrow>
     read_result \<Rightarrow> stream_locals \<Rightarrow> chat_state \<Rightarrow> chat_state \<times> call_status" where
  "processText jsonParse marked randomId messageValue res v st =
     (case res of
        ReadRejected \<Rightarrow> (st, Failed)
      | ReadDone \<Rightarrow>
          (st\<lparr> chatHistory := chatHistory st @
                  [\<lparr> human = messageValue, ai = accumulatedMessage v \<rparr>] \<rparr>,
           Completed)
      | ReadValue text \<Rightarrow>
          (case consume_lines jsonParse (lines_of text) v of
             None \<Rightarrow> (st, Failed)
           | Some v' \<Rightarrow>
               let parsedResult = marked (accumulatedMessage v')
               in (case upsert randomId (trim parsedResult) v' (messages st) of
                     None \<Rightarrow> (st, UpdaterThrew)
                   | Some (newMessages, v'') \<Rightarrow>
                       (st\<lparr> messages := newMessages, isLoading := False \<rparr>,
                        Reading v''))))"

text \<open>
  The chain \<open>reader.read().then(processText)\<close> on the results of the successive
  reads: it goes on while the call is reading.
\<close>

fun read_all ::
  "(string \<Rightarrow> parsed_line option) \<Rightarrow> (string \<Rightarrow> string) \<Rightarrow> string \<Rightarrow> string \<Rightarrow>
     read_result list \<Rightarrow> call_status \<Rightarrow> chat_state \<Rightarrow> chat_state \<times> call_status" where
  "read_all jsonParse marked randomId messageValue [] status st = (st, status)"
| "read_all jsonParse marked randomId messageValue (res # rest) status st =
     (case status of
        Reading v \<Rightarrow>
          (case processText jsonParse marked randomId messageValue res v st of
             (st', status') \<Rightarrow> read_all jsonParse marked randomId messageValue rest status' st')
      | _ \<Rightarrow> (st, status))"

section \<open>Feedback on a message (ChatMessageBubble component)\<close>

text \<open>
  The stored \<open>Feedback\<close>. \<open>setFeedback\<close> is only ever called with the four fields
  below; the optional \<open>comment\<close> of the interface is never stored.
\<close>

record Feedback =
  feedback_id :: string
  run_id :: string
  key :: string
  score :: int

text \<open>The React state variables of a bubble.\<close>

record bubble_state =
  fb_isLoading :: bool
  feedback :: "Feedback option"
  comment :: string
  feedbackColor :: string

datatype http_method = POST | PATCH

text \<open>The request to \<open>{base}/feedback\<close>: its method and the fields of its JSON body.\<close>

record feedback_request =
  http_method :: http_method
  body_score :: int
  body_run_id :: string
  body_key :: string
  body_feedback_id :: string
  body_comment :: string

datatype bubble_effect =
  FetchFeedback feedback_request
| ToastError string
| ConsoleError string
| AnimateButton string

fun isFetchFeedback :: "bubble_effect \<Rightarrow> bool" where
  "isFetchFeedback (FetchFeedback r) = True"
| "isFetchFeedback (ToastError m) = False"
| "isFetchFeedback (ConsoleError m) = False"
| "isFetchFeedback (AnimateButton b) = False"

subsection \<open>sendFeedback, up to the call of fetch\<close>

text \<open>
  \<open>runId'\<close> is the property \<open>runId\<close> of the message, \<open>uuid\<close> the string that
  \<open>uuidv4()\<close> returns (a primed name is the source's name where that is taken by a
  field). A string is truthy when it is not empty: \<open>feedback?.feedback_id\<close> selects
  \<open>PATCH\<close> only for a stored feedback whose id is not the empty string, while
  \<open>feedback?.feedback_id ?? uuidv4()\<close> keeps every stored id.
\<close>

definition sendFeedback_submit ::
  "string option \<Rightarrow> string \<Rightarrow> int \<Rightarrow> string \<Rightarrow> bubble_state \<Rightarrow>
     bubble_state \<times> bubble_effect list" where
  "sendFeedback_submit runId' uuid score' key' st =
     (case runId' of
        None \<Rightarrow> (st, [])
      | Some run_id' \<Rightarrow>
          if fb_isLoading st then (st, [])
          else
            (st\<lparr> fb_isLoading := True \<rparr>,
             [FetchFeedback
                \<lparr> http_method =
                    (case feedback st of
                       None \<Rightarrow> POST
                     | Some f \<Rightarrow> if feedback_id f = [] then POST else PATCH),
                  body_score = score',
                  body_run_id = run_id',
                  body_key = key',
                  body_feedback_id =
                    (case feedback st of None \<Rightarrow> uuid | Some f \<Rightarrow> feedback_id f),
                  body_comment = comment st \<rparr>]))"

subsection \<open>sendFeedback, after the await\<close>

text \<open>
  What the \<open>try\<close> block meets: an exception with its message (\<open>fetch\<close> rejects,
  \<open>response.json()\<close> rejects, or the data has no properties to read), or data whose
  property \<open>code\<close> is the given integer, or is no integer at all (\<open>None\<close>).
  \<open>animateButton\<close> only touches the document and is an effect.
\<close>

datatype feedback_reply = ReplyThrows string | ReplyData "int option"

definition sendFeedback_resume ::
  "feedback_request \<Rightarrow> feedback_reply \<Rightarrow> bubble_state \<Rightarrow> bubble_state \<times> bubble_effect list" where
  "sendFeedback_resume req reply st =
     (case reply of
        ReplyThrows msg \<Rightarrow>
          (st\<lparr> fb_isLoading := False \<rparr>, [ConsoleError msg, ToastError msg])
      | ReplyData code \<Rightarrow>
          if code = Some 200
          then
            (st\<lparr> feedback := Some \<lparr> feedback_id = body_feedback_id req,
                                    run_id = body_run_id req,
                                    key = body_key req,
                                    score = body_score req \<rparr>,
                  comment := (if body_comment req = [] then comment st else []),
                  fb_isLoading := False \<rparr>,
             [AnimateButton (if body_score req = 1 then ''upButton'' else ''downButton'')])
          else (st\<lparr> fb_isLoading := False \<rparr>, []))"

subsection \<open>The two feedback buttons\<close>

datatype button = UpButton | DownButton

fun button_score :: "button \<Rightarrow> int" where
  "button_score UpButton = 1"
| "button_score DownButton = 0"

fun button_id :: "button \<Rightarrow> string" where
  "button_id UpButton = ''upButton''"
| "button_id DownButton = ''downButton''"

fun button_color :: "button \<Rightarrow> string" where
  "button_color UpButton = ''border-4 border-green-300''"
| "button_color DownButton = ''border-4 border-red-300''"

definition truthy :: "string option \<Rightarrow> bool" where
  "truthy s = (case s of None \<Rightarrow> False | Some t \<Rightarrow> t \<noteq> [])"

definition already_provided :: string where
  "already_provided = ''You have already provided your feedback.''"

definition onClick ::
  "button \<Rightarrow> string option \<Rightarrow> string \<Rightarrow> bubble_state \<Rightarrow> bubble_state \<times> bubble_effect list" where
  "onClick b runId' uuid st =
     (if feedback st = None \<and> truthy runId'
      then
        (case sendFeedback_submit runId' uuid (button_score b) ''user_score'' st of
           (st', effects) \<Rightarrow>
             (st'\<lparr> feedbackColor := button_color b \<rparr>,
              effects @ [AnimateButton (button_id b)]))
      else (st, [ToastError already_provided]))"

subsection \<open>A bubble over time\<close>

text \<open>
  A bubble together with the requests that are awaiting their reply. An event is a
  click on one of the two buttons (with the \<open>runId\<close> of the message at that moment and
  the value that \<open>uuidv4()\<close> would return), or the reply to the request at a position
  of the list of awaited requests.
\<close>

record bubble_system =
  ui :: bubble_state
  awaited :: "feedback_request list"

datatype bubble_event =
  Click button "string option" string
| Reply nat feedback_reply

fun requests_of :: "bubble_effect list \<Rightarrow> feedback_request list" where
  "requests_of [] = []"
| "requests_of (FetchFeedback r # es) = r # requests_of es"
| "requests_of (ToastError m # es) = requests_of es"
| "requests_of (ConsoleError m # es) = requests_of es"
| "requests_of (AnimateButton b # es) = requests_of es"

definition remove_nth :: "nat \<Rightarrow> 'a list \<Rightarrow> 'a list" where
  "remove_nth k xs = take k xs @ drop (Suc k) xs"

fun bubble_step :: "bubble_event \<Rightarrow> bubble_system \<Rightarrow> bubble_system \<times> bubble_effect list" where
  "bubble_step (Click b runId' uuid) s =
     (case onClick b runId' uuid (ui s) of
        (st', effects) \<Rightarrow>
          (s\<lparr> ui := st', awaited := awaited s @ requests_of effects \<rparr>, effects))"
| "bubble_step (Reply k reply) s =
     (if k < length (awaited s)
      then (case sendFeedback_resume (awaited s ! k) reply (ui s) of
              (st', effects) \<Rightarrow>
                (s\<lparr> ui := st', awaited := remove_nth k (awaited s) \<rparr>, effects))
      else (s, []))"

fun bubble_run :: "bubble_event list \<Rightarrow> bubble_system \<Rightarrow> bubble_system \<times> bubble_effect list" where
  "bubble_run [] s = (s, [])"
| "bubble_run (e # es) s =
     (case bubble_step e s of
        (s', effects) \<Rightarrow>
          (case bubble_run es s' of
             (s'', effects') \<Rightarrow> (s'', effects @ effects')))"

text \<open>The bubble as \<open>useState\<close> initialises it, with no request under way.\<close>

definition bubble_initial :: bubble_system where
  "bubble_initial =
     \<lparr> ui = \<lparr> fb_isLoading = False, feedback = None, comment = [], feedbackColor = [] \<rparr>,
       awaited = [] \<rparr>"

subsection \<open>A call of sendMessage as a whole\<close>

text \<open>
  The call from its first statement to the point where \<open>fetch\<close> has settled, for
  the case that no other handler runs while the call awaits \<open>fetch\<close>. Where other
  handlers do run in between, \<open>sendMessage_submit\<close> and \<open>sendMessage_resume\<close> are
  applied one after the other to the state of their moment. The status is \<open>None\<close> when
  the call returned before it sent a request.
\<close>

definition sendMessage ::
  "bool \<Rightarrow> string \<Rightarrow> string \<Rightarrow> string option \<Rightarrow> fetch_result \<Rightarrow> chat_state \<Rightarrow>
     chat_state \<times> chat_effect list \<times> call_status option" where
  "sendMessage containerSet conversationId randomId message res st =
     (case sendMessage_submit containerSet conversationId randomId message st of
        (st1, effects1) \<Rightarrow>
          if list_ex isFetchChat effects1
          then (case sendMessage_resume (messageValue_of message st) res st1 of
                  (st2, effects2, status) \<Rightarrow> (st2, effects1 @ effects2, Some status))
          else (st1, effects1, None))"

section \<open>The stream protocol in the words of the specification\<close>

text \<open>
  The objects that a sequence of chunks carries, in arrival order: every chunk is
  trimmed and split on newlines, and every line is parsed.
\<close>

definition objects_of :: "(string \<Rightarrow> parsed_line option) \<Rightarrow> string list \<Rightarrow> parsed_line list" where
  "objects_of jsonParse chunks = List.map_filter jsonParse (concat (map lines_of chunks))"

definition all_parse :: "(string \<Rightarrow> parsed_line option) \<Rightarrow> string list \<Rightarrow> bool" where
  "all_parse jsonParse chunks =
     list_all (\<lambda>l. jsonParse l \<noteq> None) (concat (map lines_of chunks))"

text \<open>
  The specification lets every object of the stream carry exactly one of \<open>tok\<close>,
  \<open>run_id\<close> and \<open>sources\<close>; \<open>one_shape\<close> asks for at most one of them.
\<close>

definition one_shape :: "parsed_line \<Rightarrow> bool" where
  "one_shape p =
     ((tok p = None \<or> run_id_prop p = None) \<and>
      (tok p = None \<or> sources_prop p = None) \<and>
      (run_id_prop p = None \<or> sources_prop p = None))"

text \<open>
  The accumulator as the specification words it: the token fragments concatenated in
  arrival order, and the last run identifier and the last source list seen, unset when
  none arrived.
\<close>

definition spec_buffer :: "parsed_line list \<Rightarrow> string" where
  "spec_buffer objs = concat (List.map_filter tok objs)"

definition last_seen :: "'a list \<Rightarrow> 'a option" where
  "last_seen xs = (if xs = [] then None else Some (last xs))"

definition spec_runId :: "parsed_line list \<Rightarrow> string option" where
  "spec_runId objs = last_seen (List.map_filter run_id_prop objs)"

definition spec_sources :: "parsed_line list \<Rightarrow> source list option" where
  "spec_sources objs = last_seen (List.map_filter sources_prop objs)"

text \<open>The callback of \<open>map\<close> applied to a list of parsed objects, in order.\<close>

definition consume_all :: "parsed_line list \<Rightarrow> stream_locals \<Rightarrow> stream_locals" where
  "consume_all objs v = foldl (\<lambda>w p. consume p w) v objs"

fun isClick :: "bubble_event \<Rightarrow> bool" where
  "isClick (Click b r u) = True"
| "isClick (Reply k reply) = False"

text \<open>The assistant message that a stream with the given locals writes into its slot.\<close>

definition slot_of :: "string \<Rightarrow> (string \<Rightarrow> string) \<Rightarrow> stream_locals \<Rightarrow> message" where
  "slot_of randomId marked v =
     \<lparr> msg_id = randomId, content = trim (marked (accumulatedMessage v)), role = Assistant,
       runId = runId_local v, sources = sources_local v \<rparr>"

text \<open>
  What holds of a bubble at every moment: a request is awaited only while the bubble is
  loading and has no feedback stored, and then it is the only one.
\<close>

definition bubble_inv :: "bubble_system \<Rightarrow> bool" where
  "bubble_inv s =
     (awaited s = [] \<or>
      (fb_isLoading (ui s) \<and> feedback (ui s) = None \<and> length (awaited s) = 1))"

text \<open>
  What \<open>filterSources\<close> keeps true while it walks the list: the keys of \<open>urlMap\<close> are
  the URLs of the filtered list, and no URL occurs twice there.
\<close>

definition filter_inv :: "filter_state \<Rightarrow> bool" where
  "filter_inv st =
     (dom (urlMap st) = set (map url (filtered st)) \<and> distinct (map url (filtered st)))"

text \<open>
  A citation element is in range when its source number is a position of the filtered
  list and its source is the one at that position.
\<close>

definition citation_in_range :: "source list \<Rightarrow> element \<Rightarrow> bool" where
  "citation_in_range filteredSources e =
     (case e of
        Span k html \<Rightarrow> True
      | InlineCitation k src n \<Rightarrow> n < length filteredSources \<and> src = filteredSources ! n)"

section \<open>Concrete inputs\<close>

text \<open>
  A parser for four lines of the stream protocol, and a formatter that ends its
  paragraph with a newline as the \<open>paragraph\<close> renderer of the chat window does. They
  stand for \<open>JSON.parse\<close> and \<open>marked.parse\<close> where a concrete run is evaluated.
\<close>

definition demo_parse :: "string \<Rightarrow> parsed_line option" where
  \<open>demo_parse l =
     (if l = ''{"tok":"Hel"}''
        then Some \<lparr> tok = Some ''Hel'', run_id_prop = None, sources_prop = None \<rparr>
      else if l = ''{"tok":"lo"}''
        then Some \<lparr> tok = Some ''lo'', run_id_prop = None, sources_prop = None \<rparr>
      else if l = ''{"run_id":"r1"}''
        then Some \<lparr> tok = None, run_id_prop = Some ''r1'', sources_prop = None \<rparr>
      else if l = ''{"sources":[]}''
        then Some \<lparr> tok = None, run_id_prop = None, sources_prop = Some [] \<rparr>
      else None)\<close>

definition demo_marked :: "string \<Rightarrow> string" where
  "demo_marked t = t @ [CHR 0x0A]"

definition demo_chunk1 :: string where
  \<open>demo_chunk1 = ''{"sources":[]}'' @ [CHR 0x0A] @ ''{"run_id":"r1"}'' @ [CHR 0x0A]\<close>

definition demo_chunk2 :: string where
  \<open>demo_chunk2 = ''{"tok":"Hel"}'' @ [CHR 0x0A] @ ''{"tok":"lo"}'' @ [CHR 0x0A]\<close>

definition demo_objects :: "parsed_line list" where
  "demo_objects =
     [\<lparr> tok = None, run_id_prop = None, sources_prop = Some [] \<rparr>,
      \<lparr> tok = None, run_id_prop = Some ''r1'', sources_prop = None \<rparr>,
      \<lparr> tok = Some ''Hel'', run_id_prop = None, sources_prop = None \<rparr>,
      \<lparr> tok = Some ''lo'', run_id_prop = None, sources_prop = None \<rparr>]"

definition demo_chat :: chat_state where
  "demo_chat = \<lparr> messages = [], input = ''hi'', isLoading = False, chatHistory = [] \<rparr>"

definition demo_source :: "string \<Rightarrow> source" where
  "demo_source u = \<lparr> url = u, title = [] \<rparr>"

section \<open>Auxiliary facts\<close>

subsection \<open>The concrete stream\<close>

lemmas trim_unfold =
  trim_def trimStart.simps trimEnd.simps spaceAtStart_def spaceAtEnd_def whiteSpace_def
  startsWith_def endsWith_def

lemma demo_lines1: \<open>lines_of demo_chunk1 = [''{"sources":[]}'', ''{"run_id":"r1"}'']\<close>
  by (simp add: demo_chunk1_def lines_of_def trim_unfold)

lemma demo_lines2: \<open>lines_of demo_chunk2 = [''{"tok":"Hel"}'', ''{"tok":"lo"}'']\<close>
  by (simp add: demo_chunk2_def lines_of_def trim_unfold)

lemma demo_trim_empty: "trim (demo_marked []) = []"
  by (simp add: demo_marked_def trim_unfold)

lemma demo_trim_Hello: "trim (demo_marked ''Hello'') = ''Hello''"
  by (simp add: demo_marked_def trim_unfold)

lemma demo_objects:
  "objects_of demo_parse [demo_chunk1, demo_chunk2] = demo_objects"
  by (simp add: objects_of_def demo_lines1 demo_lines2 demo_parse_def demo_objects_def)

lemma demo_all_parse: "all_parse demo_parse [demo_chunk1, demo_chunk2]"
  by (simp add: all_parse_def demo_lines1 demo_lines2 demo_parse_def)

subsection \<open>De-duplication and citations\<close>

lemma filter_inv_body: "filter_inv st \<Longrightarrow> filter_inv (filterSources_body src i st)"
  by (auto simp: filter_inv_def filterSources_body_def split: option.splits)

lemma urls_body:
  "filter_inv st \<Longrightarrow>
   set (map url (filtered (filterSources_body src i st))) = insert (url src) (set (map url (filtered st)))"
  by (auto simp: filter_inv_def filterSources_body_def split: option.splits)

lemma filter_inv_forEach:
  "filter_inv st \<Longrightarrow>
   filter_inv (filterSources_forEach srcs i st)
   \<and> set (map url (filtered (filterSources_forEach srcs i st)))
       = set (map url (filtered st)) \<union> set (map url srcs)"
proof (induction srcs arbitrary: i st)
  case Nil
  then show ?case by simp
next
  case (Cons src srcs)
  from Cons.prems have inv: "filter_inv (filterSources_body src i st)" by (rule filter_inv_body)
  from Cons.IH[OF inv, of "Suc i"] urls_body[OF Cons.prems, of src i]
  show ?case by auto
qed

lemma answer_forEach_in_range:
  "list_all (citation_in_range filteredSources) elements \<Longrightarrow>
   list_all (citation_in_range filteredSources)
     (fst (answer_forEach content' filteredSources sourceIndexMap ms prevIndex elements))"
  by (induction ms arbitrary: prevIndex elements)
     (simp_all add: Let_def citation_in_range_def)

subsection \<open>The accumulator\<close>

lemma consume_all_Nil: "consume_all [] v = v"
  by (simp add: consume_all_def)

lemma consume_all_Cons: "consume_all (p # ps) v = consume_all ps (consume p v)"
  by (simp add: consume_all_def)

lemma consume_all_append: "consume_all (ps @ qs) v = consume_all qs (consume_all ps v)"
  by (simp add: consume_all_def)

lemma consume_lines_all_parse:
  "list_all (\<lambda>l. jsonParse l \<noteq> None) ls \<Longrightarrow>
   consume_lines jsonParse ls v = Some (consume_all (List.map_filter jsonParse ls) v)"
  by (induction ls arbitrary: v)
     (auto simp: consume_all_Nil consume_all_Cons)

lemma messageIndex_consume: "messageIndex (consume p v) = messageIndex v"
  by (simp add: consume_def split: option.splits)

lemma messageIndex_consume_all: "messageIndex (consume_all ps v) = messageIndex v"
  by (induction ps arbitrary: v) (simp_all add: consume_all_Nil consume_all_Cons messageIndex_consume)

lemma buffer_consume_all:
  "accumulatedMessage (consume_all ps v) = accumulatedMessage v @ spec_buffer ps"
proof (induction ps arbitrary: v)
  case Nil
  then show ?case by (simp add: consume_all_Nil spec_buffer_def)
next
  case (Cons p ps)
  have "accumulatedMessage (consume p v) @ spec_buffer ps
      = accumulatedMessage v @ spec_buffer (p # ps)"
    by (simp add: consume_def spec_buffer_def split: option.splits)
  with Cons.IH[of "consume p v"] show ?case by (simp add: consume_all_Cons)
qed

lemma last_seen_Cons:
  "last_seen (x # xs) = (case last_seen xs of None \<Rightarrow> Some x | Some y \<Rightarrow> Some y)"
  by (simp add: last_seen_def)

lemma runId_consume_all:
  "list_all one_shape ps \<Longrightarrow>
   runId_local (consume_all ps v) =
     (case spec_runId ps of None \<Rightarrow> runId_local v | Some r \<Rightarrow> Some r)"
proof (induction ps arbitrary: v)
  case Nil
  then show ?case by (simp add: consume_all_Nil spec_runId_def last_seen_def)
next
  case (Cons p ps)
  from Cons.prems have p: "one_shape p" and ps: "list_all one_shape ps" by simp_all
  from p have "runId_local (consume p v) =
       (case run_id_prop p of None \<Rightarrow> runId_local v | Some r \<Rightarrow> Some r)"
    by (auto simp: consume_def one_shape_def split: option.splits)
  with Cons.IH[OF ps, of "consume p v"] show ?case
    by (simp add: consume_all_Cons spec_runId_def last_seen_Cons
        split: option.splits)
qed

lemma sources_consume_all:
  "list_all one_shape ps \<Longrightarrow>
   sources_local (consume_all ps v) =
     (case spec_sources ps of None \<Rightarrow> sources_local v | Some r \<Rightarrow> Some r)"
proof (induction ps arbitrary: v)
  case Nil
  then show ?case by (simp add: consume_all_Nil spec_sources_def last_seen_def)
next
  case (Cons p ps)
  from Cons.prems have p: "one_shape p" and ps: "list_all one_shape ps" by simp_all
  from p have "sources_local (consume p v) =
       (case sources_prop p of None \<Rightarrow> sources_local v | Some r \<Rightarrow> Some r)"
    by (auto simp: consume_def one_shape_def split: option.splits)
  with Cons.IH[OF ps, of "consume p v"] show ?case
    by (simp add: consume_all_Cons spec_sources_def last_seen_Cons
        split: option.splits)
qed

lemma objects_of_Nil: "objects_of jsonParse [] = []"
  by (simp add: objects_of_def)

lemma objects_of_Cons:
  "objects_of jsonParse (c # cs) = List.map_filter jsonParse (lines_of c) @ objects_of jsonParse cs"
  by (simp add: objects_of_def List.map_filter_def)

lemma all_parse_Cons:
  "all_parse jsonParse (c # cs) =
     (list_all (\<lambda>l. jsonParse l \<noteq> None) (lines_of c) \<and> all_parse jsonParse cs)"
  by (simp add: all_parse_def)

subsection \<open>One chunk, and the chunks of a stream\<close>

text \<open>A chunk that arrives while the assistant message has its slot.\<close>

lemma processText_replace:
  assumes "list_all (\<lambda>l. jsonParse l \<noteq> None) (lines_of c)"
      and "messageIndex v = Some k" and "k < length (messages st)"
  shows "processText jsonParse marked randomId messageValue (ReadValue c) v st =
           (st\<lparr> messages := (messages st)[k := (messages st ! k)
                     \<lparr> content := trim (marked (accumulatedMessage
                                     (consume_all (List.map_filter jsonParse (lines_of c)) v))),
                       runId := runId_local (consume_all (List.map_filter jsonParse (lines_of c)) v),
                       sources := sources_local (consume_all (List.map_filter jsonParse (lines_of c)) v) \<rparr>],
                 isLoading := False \<rparr>,
            Reading (consume_all (List.map_filter jsonParse (lines_of c)) v))"
  using assms
  by (simp add: processText_def consume_lines_all_parse upsert_def messageIndex_consume_all Let_def)

lemma processText_append:
  assumes "list_all (\<lambda>l. jsonParse l \<noteq> None) (lines_of c)"
      and "messageIndex v = None"
  shows "processText jsonParse marked randomId messageValue (ReadValue c) v st =
           (st\<lparr> messages := messages st @
                     [\<lparr> msg_id = randomId,
                        content = trim (marked (accumulatedMessage
                                     (consume_all (List.map_filter jsonParse (lines_of c)) v))),
                        role = Assistant,
                        runId = runId_local (consume_all (List.map_filter jsonParse (lines_of c)) v),
                        sources = sources_local (consume_all (List.map_filter jsonParse (lines_of c)) v) \<rparr>],
                 isLoading := False \<rparr>,
            Reading ((consume_all (List.map_filter jsonParse (lines_of c)) v)
                       \<lparr> messageIndex := Some (length (messages st)) \<rparr>))"
  using assms
  by (simp add: processText_def consume_lines_all_parse upsert_def messageIndex_consume_all Let_def)

lemma read_all_replace:
  assumes "all_parse jsonParse cs"
      and "messageIndex v = Some (length pre)"
      and "messages st = pre @ [slot_of randomId marked v]"
      and "\<not> isLoading st"
  shows "read_all jsonParse marked randomId messageValue (map ReadValue cs) (Reading v) st =
           (st\<lparr> messages := pre @ [slot_of randomId marked (consume_all (objects_of jsonParse cs) v)] \<rparr>,
            Reading (consume_all (objects_of jsonParse cs) v))"
  using assms
proof (induction cs arbitrary: v st)
  case Nil
  then show ?case by (simp add: objects_of_Nil consume_all_Nil)
next
  case (Cons c cs)
  let ?v1 = "consume_all (List.map_filter jsonParse (lines_of c)) v"
  let ?st1 = "st\<lparr> messages := pre @ [slot_of randomId marked ?v1] \<rparr>"
  from Cons.prems(1) have c: "list_all (\<lambda>l. jsonParse l \<noteq> None) (lines_of c)"
    and cs: "all_parse jsonParse cs" by (simp_all add: all_parse_Cons)
  have k: "length pre < length (messages st)" using Cons.prems(3) by simp
  have step: "processText jsonParse marked randomId messageValue (ReadValue c) v st = (?st1, Reading ?v1)"
    using Cons.prems(3,4)
    by (simp add: processText_replace[OF c Cons.prems(2) k] slot_of_def)
  have idx: "messageIndex ?v1 = Some (length pre)"
    using Cons.prems(2) by (simp add: messageIndex_consume_all)
  have ih: "read_all jsonParse marked randomId messageValue (map ReadValue cs) (Reading ?v1) ?st1 =
           (?st1\<lparr> messages := pre @ [slot_of randomId marked (consume_all (objects_of jsonParse cs) ?v1)] \<rparr>,
            Reading (consume_all (objects_of jsonParse cs) ?v1))"
    using Cons.prems(4) by (intro Cons.IH[OF cs idx]) simp_all
  show ?case
    by (simp add: step ih objects_of_Cons consume_all_append)
qed


lemma read_all_first:
  assumes "all_parse jsonParse (c # cs)"
  shows "read_all jsonParse marked randomId messageValue (map ReadValue (c # cs))
           (Reading initial_locals) st =
         (st\<lparr> messages := messages st @
                  [slot_of randomId marked (consume_all (objects_of jsonParse (c # cs)) initial_locals)],
               isLoading := False \<rparr>,
          Reading ((consume_all (objects_of jsonParse (c # cs)) initial_locals)
                     \<lparr> messageIndex := Some (length (messages st)) \<rparr>))"
proof -
  let ?v1 = "consume_all (List.map_filter jsonParse (lines_of c)) initial_locals"
  let ?w1 = "?v1\<lparr> messageIndex := Some (length (messages st)) \<rparr>"
  let ?st1 = "st\<lparr> messages := messages st @ [slot_of randomId marked ?w1], isLoading := False \<rparr>"
  from assms have c: "list_all (\<lambda>l. jsonParse l \<noteq> None) (lines_of c)"
    and cs: "all_parse jsonParse cs" by (simp_all add: all_parse_Cons)
  have none: "messageIndex initial_locals = None" by (simp add: initial_locals_def)
  have step: "processText jsonParse marked randomId messageValue (ReadValue c) initial_locals st
                = (?st1, Reading ?w1)"
    by (simp add: processText_append[OF c none] slot_of_def)
  have rest: "read_all jsonParse marked randomId messageValue (map ReadValue cs) (Reading ?w1) ?st1 =
           (?st1\<lparr> messages := messages st @ [slot_of randomId marked (consume_all (objects_of jsonParse cs) ?w1)] \<rparr>,
            Reading (consume_all (objects_of jsonParse cs) ?w1))"
    by (rule read_all_replace[OF cs]) simp_all
  have shift1: "consume p (w\<lparr> messageIndex := i \<rparr>) = (consume p w)\<lparr> messageIndex := i \<rparr>"
    for p w i
    by (simp add: consume_def split: option.splits)
  have shift: "consume_all ps (w\<lparr> messageIndex := i \<rparr>) = (consume_all ps w)\<lparr> messageIndex := i \<rparr>"
    for ps w i
    by (induction ps arbitrary: w) (simp_all add: consume_all_Nil consume_all_Cons shift1)
  have "read_all jsonParse marked randomId messageValue (map ReadValue (c # cs))
           (Reading initial_locals) st
        = read_all jsonParse marked randomId messageValue (map ReadValue cs) (Reading ?w1) ?st1"
    by (simp add: step)
  also note rest
  also have "(?st1\<lparr> messages := messages st @ [slot_of randomId marked (consume_all (objects_of jsonParse cs) ?w1)] \<rparr>,
            Reading (consume_all (objects_of jsonParse cs) ?w1))
     = (st\<lparr> messages := messages st @
                  [slot_of randomId marked (consume_all (objects_of jsonParse (c # cs)) initial_locals)],
               isLoading := False \<rparr>,
          Reading ((consume_all (objects_of jsonParse (c # cs)) initial_locals)
                     \<lparr> messageIndex := Some (length (messages st)) \<rparr>))"
    by (simp add: objects_of_Cons consume_all_append shift slot_of_def)
  finally show ?thesis .
qed

lemma read_all_stopped:
  "(\<And>v. status \<noteq> Reading v) \<Longrightarrow>
   read_all jsonParse marked randomId messageValue rs status st = (st, status)"
  by (cases rs; cases status) auto

lemma read_all_append:
  "read_all jsonParse marked randomId messageValue (rs @ rs') status st =
     (case read_all jsonParse marked randomId messageValue rs status st of
        (st1, status1) \<Rightarrow> read_all jsonParse marked randomId messageValue rs' status1 st1)"
proof (induction rs arbitrary: status st)
  case Nil
  then show ?case by simp
next
  case (Cons r rs)
  show ?case
  proof (cases status)
    case (Reading v)
    then show ?thesis using Cons.IH by (simp split: prod.splits)
  qed (simp_all add: read_all_stopped)
qed

lemma read_all_values:
  assumes "all_parse jsonParse chunks"
  shows "\<exists>st1 v. read_all jsonParse marked randomId messageValue (map ReadValue chunks)
           (Reading initial_locals) st = (st1, Reading v)
         \<and> chatHistory st1 = chatHistory st
         \<and> isLoading st1 = (chunks = [] \<and> isLoading st)
         \<and> accumulatedMessage v = spec_buffer (objects_of jsonParse chunks)"
proof (cases chunks)
  case Nil
  then show ?thesis
    by (simp add: objects_of_Nil spec_buffer_def initial_locals_def)
next
  case (Cons c cs)
  show ?thesis
    unfolding Cons read_all_first[OF assms[unfolded Cons]]
    by (simp add: buffer_consume_all initial_locals_def)
qed

lemma submit_requests:
  "filter isFetchChat (snd (sendMessage_submit containerSet conversationId randomId message st)) =
     (if isLoading st \<or> messageValue_of message st = [] then []
      else [FetchChat \<lparr> req_message = messageValue_of message st,
                         history = chatHistory st,
                         conversation_id = conversationId \<rparr>])"
  by (simp add: sendMessage_submit_def Let_def)

subsection \<open>The bubble over time\<close>

lemma bubble_inv_initial: "bubble_inv bubble_initial"
  by (simp add: bubble_inv_def bubble_initial_def)

lemma bubble_inv_step:
  assumes "bubble_inv s"
  shows "bubble_inv (fst (bubble_step e s))"
proof (cases e)
  case (Click b r u)
  then show ?thesis using assms
    by (auto simp: bubble_inv_def onClick_def sendFeedback_submit_def truthy_def
        split: option.splits if_splits)
next
  case (Reply k reply)
  then show ?thesis using assms
    by (auto simp: bubble_inv_def sendFeedback_resume_def remove_nth_def
        split: feedback_reply.splits if_splits)
qed

lemma bubble_inv_run:
  "bubble_inv s \<Longrightarrow> bubble_inv (fst (bubble_run es s))"
proof (induction es arbitrary: s)
  case Nil
  then show ?case by simp
next
  case (Cons e es)
  obtain s' effects where step: "bubble_step e s = (s', effects)"
    by (cases "bubble_step e s")
  from Cons.prems have "bubble_inv (fst (bubble_step e s))" by (rule bubble_inv_step)
  with step have "bubble_inv s'" by simp
  from Cons.IH[OF this] step show ?case by (auto split: prod.splits)
qed

lemma stored_step:
  assumes "feedback (ui s) \<noteq> None" and "awaited s = []"
  shows "bubble_step e s = (s, if isClick e then [ToastError already_provided] else [])"
  using assms by (cases e) (auto simp: onClick_def)

lemma stored_run:
  assumes "feedback (ui s) \<noteq> None" and "awaited s = []"
  shows "bubble_run es s = (s, map (\<lambda>e. ToastError already_provided) (filter isClick es))"
  using assms by (induction es) (auto simp: stored_step)

section \<open>The claims\<close>

subsection \<open>C1: duplicate sources and the markers that cite them\<close>

text \<open>
  Claim C1 says that sources sharing a URL collapse to one entry of the filtered list,
  and that every marker whose index refers to a duplicate occurrence resolves, through
  the index map, to the position of that entry in the filtered list. The first half
  holds. The second half fails on the code: for a duplicate, \<open>filterSources\<close> stores in
  the index map the position of the first occurrence in the original list (the value
  kept in \<open>urlMap\<close>), not its position in the filtered list. For the five sources with
  the URLs a, a, b, c, b the filtered list is a, b, c; position 4 (the second b) is
  mapped to 2, and the marker \<open>[4]\<close> is rendered as a citation of c.
\<close>

theorem C1_duplicate_marker_cites_other_source:
  "filtered (filterSources
       [demo_source ''a'', demo_source ''a'', demo_source ''b'', demo_source ''c'',
        demo_source ''b''])
     = [demo_source ''a'', demo_source ''b'', demo_source ''c'']
   \<and> indexMap (filterSources
       [demo_source ''a'', demo_source ''a'', demo_source ''b'', demo_source ''c'',
        demo_source ''b'']) 4 = Some 2
   \<and> renderAnswer ''x[4]y''
       [demo_source ''a'', demo_source ''a'', demo_source ''b'', demo_source ''c'',
        demo_source ''b'']
     = [Span 0 ''x'', InlineCitation 0 (demo_source ''c'') 2, Span 4 ''y'']"
  by (simp add: renderAnswer_def filterSources_def filterSources_body_def demo_source_def
      createAnswerElements_def matchAll_def match_here_def optCaret_def isDigit_def
      parseInt_def digitVal_def resolve_def slice_def)

subsection \<open>C2: markers outside the range of the sources\<close>

text \<open>
  Claim C2 says that a marker whose index does not resolve to a position of the
  filtered source list is rendered as plain text and never as a citation. The code
  replaces a missing entry of the index map by the constant 10 before it compares with
  the length of the filtered list. With eleven sources of distinct URLs the index map
  has the keys 0 to 10 only, and yet the marker \<open>[99]\<close> is rendered as a citation of
  the source at position 10.
\<close>

theorem C2_unknown_marker_cites_source_ten:
  "length (filtered (filterSources (map (\<lambda>c. demo_source [c]) ''abcdefghijk''))) = 11
   \<and> indexMap (filterSources (map (\<lambda>c. demo_source [c]) ''abcdefghijk'')) 99 = None
   \<and> renderAnswer ''[99]'' (map (\<lambda>c. demo_source [c]) ''abcdefghijk'')
     = [Span 0 [], InlineCitation 0 (demo_source ''k'') 10, Span 4 []]"
  by (simp add: renderAnswer_def filterSources_def filterSources_body_def demo_source_def
      createAnswerElements_def matchAll_def match_here_def optCaret_def isDigit_def
      parseInt_def digitVal_def resolve_def slice_def)

subsection \<open>C3: a failed request\<close>

text \<open>
  Claim C3 says that after a submission whose \<open>fetch\<close> throws, the message list is
  again as it was before that submission, the input field holds the submitted text, the
  loading flag is cleared, and nothing retries. The catch block restores the input,
  clears the flag and sends nothing. But it removes whatever message is last when the
  rejection arrives, and the loading flag does not keep other submissions out while the
  call awaits \<open>fetch\<close> (see C8). Below, "hi" is submitted and the first chunk of its
  response arrives; "two" is typed and submitted; the second chunk of the first response
  clears the flag again; "three" is typed and submitted; then the request for "two" is
  rejected. The catch block of "two" removes "three", whose request is still awaited,
  and "two" stays in the list.
\<close>

theorem C3_rollback_removes_other_message:
  "(let st1 = fst (sendMessage_submit True ''conv'' ''0.1'' None demo_chat);
        (st2, status2) = processText demo_parse demo_marked ''0.2'' ''hi''
                           (ReadValue demo_chunk1) initial_locals st1
    in case status2 of
         Reading v \<Rightarrow>
           (let (st3, effects3) =
                  sendMessage_submit True ''conv'' ''0.3'' None (onChange ''two'' st2);
                (st4, status4) = processText demo_parse demo_marked ''0.2'' ''hi''
                                   (ReadValue demo_chunk2) v st3;
                (st5, effects5) =
                  sendMessage_submit True ''conv'' ''0.4'' None (onChange ''three'' st4);
                (st6, effects6, status6) = sendMessage_resume ''two'' FetchRejected st5
            in map content (messages st2) = [''hi'', []]
             \<and> filter isFetchChat effects3 =
                 [FetchChat \<lparr> req_message = ''two'', history = [],
                              conversation_id = ''conv'' \<rparr>]
             \<and> isLoading st3
             \<and> \<not> isLoading st4
             \<and> filter isFetchChat effects5 =
                 [FetchChat \<lparr> req_message = ''three'', history = [],
                              conversation_id = ''conv'' \<rparr>]
             \<and> map content (messages st5) = [''hi'', ''Hello'', ''two'', ''three'']
             \<and> status6 = Rethrown
             \<and> input st6 = ''two''
             \<and> map content (messages st6) = [''hi'', ''Hello'', ''two''])
       | _ \<Rightarrow> False)"
  by (simp add: sendMessage_submit_def messageValue_of_def onChange_def demo_chat_def
      processText_def demo_lines1 demo_lines2 demo_parse_def consume_def initial_locals_def
      demo_trim_empty demo_trim_Hello upsert_def sendMessage_resume_def Let_def)

subsection \<open>C4: feedback at most once\<close>

text \<open>
  Claim C4: once a feedback record has been stored for a message, every later click on
  either feedback button is rejected in the browser: the error notice is shown and no
  request is sent. Here \<open>s\<close> is any state that the bubble reaches from its initial
  state and in which a feedback is stored; whatever events follow, the state stays as it
  is, and the only effects are one error notice per click. So the feedback is stored at
  most once.
\<close>

theorem C4_feedback_at_most_once:
  assumes "s = fst (bubble_run before bubble_initial)" and "feedback (ui s) \<noteq> None"
  shows "bubble_run later s =
           (s, map (\<lambda>e. ToastError already_provided) (filter isClick later))"
proof -
  have "bubble_inv s" using assms(1) bubble_inv_initial by (simp add: bubble_inv_run)
  with assms(2) have "awaited s = []" by (auto simp: bubble_inv_def)
  with assms(2) show ?thesis by (rule stored_run)
qed

theorem C4_feedback_at_most_once_witness:
  "feedback (ui (fst (bubble_run
       [Click UpButton (Some ''run-1'') ''id-1'', Reply 0 (ReplyData (Some 200))]
       bubble_initial))) \<noteq> None
   \<and> bubble_run
       [Click DownButton (Some ''run-1'') ''id-2'', Click UpButton (Some ''run-1'') ''id-3'']
       (fst (bubble_run
          [Click UpButton (Some ''run-1'') ''id-1'', Reply 0 (ReplyData (Some 200))]
          bubble_initial))
     = (fst (bubble_run
          [Click UpButton (Some ''run-1'') ''id-1'', Reply 0 (ReplyData (Some 200))]
          bubble_initial),
        [ToastError already_provided, ToastError already_provided])"
proof -
  have a: "feedback (ui (fst (bubble_run
       [Click UpButton (Some ''run-1'') ''id-1'', Reply 0 (ReplyData (Some 200))]
       bubble_initial))) \<noteq> None"
    by (simp add: bubble_initial_def onClick_def truthy_def sendFeedback_submit_def
        sendFeedback_resume_def remove_nth_def)
  from C4_feedback_at_most_once[OF refl a,
      of "[Click DownButton (Some ''run-1'') ''id-2'', Click UpButton (Some ''run-1'') ''id-3'']"] a
  show ?thesis by simp
qed

subsection \<open>C5: the accumulator\<close>

text \<open>
  Claim C5: for every sequence of decoded chunks whose lines, after trimming and
  splitting on newlines, all parse to objects of the stream protocol, the call is still
  reading after the last chunk, its text buffer is the concatenation in arrival order
  of the \<open>tok\<close> fields of the objects seen so far, and its run identifier and source
  list are the \<open>run_id\<close> and \<open>sources\<close> of the last objects that carried one (unset
  when none did).
\<close>

theorem C5_accumulator_follows_protocol:
  assumes "all_parse jsonParse chunks"
      and "list_all one_shape (objects_of jsonParse chunks)"
  shows "\<exists>v. snd (read_all jsonParse marked randomId messageValue (map ReadValue chunks)
                     (Reading initial_locals) st) = Reading v
           \<and> accumulatedMessage v = spec_buffer (objects_of jsonParse chunks)
           \<and> runId_local v = spec_runId (objects_of jsonParse chunks)
           \<and> sources_local v = spec_sources (objects_of jsonParse chunks)"
proof (cases chunks)
  case Nil
  then show ?thesis
    by (simp add: initial_locals_def objects_of_Nil spec_buffer_def spec_runId_def
        spec_sources_def last_seen_def)
next
  case (Cons c cs)
  have init: "accumulatedMessage initial_locals = []" "runId_local initial_locals = None"
    "sources_local initial_locals = None"
    by (simp_all add: initial_locals_def)
  show ?thesis
    using assms(2) unfolding Cons read_all_first[OF assms(1)[unfolded Cons]]
    by (simp add: buffer_consume_all runId_consume_all sources_consume_all init
        split: option.splits)
qed

theorem C5_accumulator_follows_protocol_witness:
  "all_parse demo_parse [demo_chunk1, demo_chunk2]
   \<and> list_all one_shape (objects_of demo_parse [demo_chunk1, demo_chunk2])
   \<and> (\<exists>v. snd (read_all demo_parse demo_marked ''0.7'' ''hi''
                     (map ReadValue [demo_chunk1, demo_chunk2])
                     (Reading initial_locals) demo_chat) = Reading v
           \<and> accumulatedMessage v = ''Hello''
           \<and> runId_local v = Some ''r1''
           \<and> sources_local v = Some [])"
proof -
  have a: "all_parse demo_parse [demo_chunk1, demo_chunk2]"
    by (rule demo_all_parse)
  have b: "list_all one_shape (objects_of demo_parse [demo_chunk1, demo_chunk2])"
    by (simp add: demo_objects one_shape_def demo_objects_def)
  have c: "spec_buffer demo_objects = ''Hello''"
    "spec_runId demo_objects = Some ''r1''"
    "spec_sources demo_objects = Some []"
    by (simp_all add: demo_objects_def spec_buffer_def spec_runId_def spec_sources_def
        last_seen_def)
  from C5_accumulator_follows_protocol[OF a b, where marked = demo_marked
      and randomId = "''0.7''" and messageValue = "''hi''" and st = demo_chat]
  show ?thesis using a b by (simp add: demo_objects c)
qed

subsection \<open>C6: one slot, formatted anew after every chunk\<close>

text \<open>
  Claim C6 says that after every chunk of a streamed response the whole accumulated
  buffer goes through the formatter again, and that the response has one assistant
  message in the conversation list: the first chunk appends it, and every later chunk
  replaces the content, run id and sources of that same message. The formatter does run
  on the whole buffer after every chunk. But the message is found again by its position
  in the list, and the loading flag does not keep other submissions out while a response
  is streamed (see C8), so the catch block of another call can remove it. Below, "hi" is
  being answered, "two" and "three" are submitted as in C3, and the response to "two"
  starts: its first chunk appends the assistant message at position 4. Then the request
  for "three" is rejected, and its catch block removes that assistant message. When the
  second chunk of the response to "two" comes next, the updater finds no message at
  position 4 and throws. When instead "four" is typed and submitted first, the second
  chunk writes its content, run id and sources into the user message "four".
\<close>

theorem C6_slot_lost_to_other_rollback:
  "(let st1 = fst (sendMessage_submit True ''conv'' ''0.1'' None demo_chat);
        (st2, status2) = processText demo_parse demo_marked ''0.2'' ''hi''
                           (ReadValue demo_chunk1) initial_locals st1
    in case status2 of
         Reading v \<Rightarrow>
           (let st3 = fst (sendMessage_submit True ''conv'' ''0.3'' None (onChange ''two'' st2));
                (st4, status4) = processText demo_parse demo_marked ''0.2'' ''hi''
                                   (ReadValue demo_chunk2) v st3;
                st5 = fst (sendMessage_submit True ''conv'' ''0.4'' None (onChange ''three'' st4));
                (st6, status6) = processText demo_parse demo_marked ''0.5'' ''two''
                                   (ReadValue demo_chunk1) initial_locals st5
            in case status6 of
                 Reading w \<Rightarrow>
                   (let (st7, effects7, status7) = sendMessage_resume ''three'' FetchRejected st6;
                        (st8, status8) = processText demo_parse demo_marked ''0.5'' ''two''
                                           (ReadValue demo_chunk2) w st7;
                        st9 = fst (sendMessage_submit True ''conv'' ''0.6'' None
                                     (onChange ''four'' st7));
                        (st10, status10) = processText demo_parse demo_marked ''0.5'' ''two''
                                             (ReadValue demo_chunk2) w st9
                    in messageIndex w = Some 4
                     \<and> map msg_id (messages st6) = [''0.1'', ''0.2'', ''0.3'', ''0.4'', ''0.5'']
                     \<and> map msg_id (messages st7) = [''0.1'', ''0.2'', ''0.3'', ''0.4'']
                     \<and> status8 = UpdaterThrew
                     \<and> st8 = st7
                     \<and> map msg_id (messages st9) = [''0.1'', ''0.2'', ''0.3'', ''0.4'', ''0.6'']
                     \<and> messages st10 =
                         butlast (messages st9) @
                           [\<lparr> msg_id = ''0.6'', content = ''Hello'', role = User,
                              runId = Some ''r1'', sources = Some [] \<rparr>])
               | _ \<Rightarrow> False)
       | _ \<Rightarrow> False)"
  by (simp add: sendMessage_submit_def messageValue_of_def onChange_def demo_chat_def
      processText_def demo_lines1 demo_lines2 demo_parse_def consume_def initial_locals_def
      demo_trim_empty demo_trim_Hello upsert_def sendMessage_resume_def Let_def)

subsection \<open>C7: the history after a completed stream\<close>

text \<open>
  Claim C7: when a streamed response runs to completion, one entry made of the user
  text and the final assistant text (the accumulated buffer) is appended to the
  conversation history, and that history is the \<open>history\<close> of the body of the next chat
  request. The next call of \<open>sendMessage\<close> sends a request when the loading flag is
  clear and the message is not empty; the flag is clear after a stream of at least one
  chunk.
\<close>

theorem C7_completed_exchange_joins_history:
  assumes "all_parse jsonParse chunks"
  shows "\<exists>st'.
           read_all jsonParse marked randomId messageValue (map ReadValue chunks @ [ReadDone])
             (Reading initial_locals) st = (st', Completed)
         \<and> chatHistory st' = chatHistory st @
             [\<lparr> human = messageValue, ai = spec_buffer (objects_of jsonParse chunks) \<rparr>]
         \<and> isLoading st' = (chunks = [] \<and> isLoading st)
         \<and> (\<forall>containerSet conversationId randomId' message.
               filter isFetchChat
                 (snd (sendMessage_submit containerSet conversationId randomId' message st')) =
               (if isLoading st' \<or> messageValue_of message st' = [] then []
                else [FetchChat
                        \<lparr> req_message = messageValue_of message st',
                          history = chatHistory st @
                            [\<lparr> human = messageValue,
                               ai = spec_buffer (objects_of jsonParse chunks) \<rparr>],
                          conversation_id = conversationId \<rparr>]))"
proof -
  from read_all_values[OF assms, of marked randomId messageValue st]
  obtain st1 v where run: "read_all jsonParse marked randomId messageValue (map ReadValue chunks)
           (Reading initial_locals) st = (st1, Reading v)"
    and hist: "chatHistory st1 = chatHistory st"
    and load: "isLoading st1 = (chunks = [] \<and> isLoading st)"
    and buf: "accumulatedMessage v = spec_buffer (objects_of jsonParse chunks)"
    by blast
  let ?st' = "st1\<lparr> chatHistory := chatHistory st @
                    [\<lparr> human = messageValue, ai = spec_buffer (objects_of jsonParse chunks) \<rparr>] \<rparr>"
  have "read_all jsonParse marked randomId messageValue (map ReadValue chunks @ [ReadDone])
             (Reading initial_locals) st = (?st', Completed)"
    by (simp add: read_all_append run processText_def buf hist)
  moreover have "chatHistory ?st' = chatHistory st @
             [\<lparr> human = messageValue, ai = spec_buffer (objects_of jsonParse chunks) \<rparr>]"
    by simp
  moreover have "isLoading ?st' = (chunks = [] \<and> isLoading st)" using load by simp
  moreover have "filter isFetchChat
           (snd (sendMessage_submit containerSet conversationId randomId' message ?st')) =
         (if isLoading ?st' \<or> messageValue_of message ?st' = [] then []
          else [FetchChat
                  \<lparr> req_message = messageValue_of message ?st',
                    history = chatHistory st @
                      [\<lparr> human = messageValue,
                         ai = spec_buffer (objects_of jsonParse chunks) \<rparr>],
                    conversation_id = conversationId \<rparr>])"
    for containerSet conversationId randomId' message
    unfolding submit_requests by simp
  ultimately show ?thesis by blast
qed

theorem C7_completed_exchange_joins_history_witness:
  "all_parse demo_parse [demo_chunk1, demo_chunk2]
   \<and> (\<exists>st'.
           read_all demo_parse demo_marked ''0.7'' ''hi''
             (map ReadValue [demo_chunk1, demo_chunk2] @ [ReadDone])
             (Reading initial_locals) demo_chat = (st', Completed)
         \<and> chatHistory st' = [\<lparr> human = ''hi'', ai = ''Hello'' \<rparr>]
         \<and> \<not> isLoading st'
         \<and> filter isFetchChat (snd (sendMessage_submit True ''conv-2'' ''0.9'' (Some ''more'') st')) =
             [FetchChat \<lparr> req_message = ''more'',
                          history = [\<lparr> human = ''hi'', ai = ''Hello'' \<rparr>],
                          conversation_id = ''conv-2'' \<rparr>])"
proof -
  have a: "all_parse demo_parse [demo_chunk1, demo_chunk2]"
    by (rule demo_all_parse)
  have c: "spec_buffer demo_objects = ''Hello''"
    by (simp add: demo_objects_def spec_buffer_def)
  have h: "chatHistory demo_chat = []" by (simp add: demo_chat_def)
  from C7_completed_exchange_joins_history[OF a, where marked = demo_marked
      and randomId = "''0.7''" and messageValue = "''hi''" and st = demo_chat]
  obtain st' where
    run: "read_all demo_parse demo_marked ''0.7'' ''hi''
             (map ReadValue [demo_chunk1, demo_chunk2] @ [ReadDone])
             (Reading initial_locals) demo_chat = (st', Completed)"
    and hist: "chatHistory st' = [\<lparr> human = ''hi'', ai = ''Hello'' \<rparr>]"
    and load: "\<not> isLoading st'"
    and next_request: "\<And>containerSet conversationId randomId' message.
               filter isFetchChat
                 (snd (sendMessage_submit containerSet conversationId randomId' message st')) =
               (if isLoading st' \<or> messageValue_of message st' = [] then []
                else [FetchChat
                        \<lparr> req_message = messageValue_of message st',
                          history = chatHistory demo_chat @
                            [\<lparr> human = ''hi'',
                               ai = spec_buffer (objects_of demo_parse [demo_chunk1, demo_chunk2]) \<rparr>],
                          conversation_id = conversationId \<rparr>])"
    by (auto simp: demo_objects c h)
  from next_request[of True "''conv-2''" "''0.9''" "Some ''more''"] load
  have "filter isFetchChat (snd (sendMessage_submit True ''conv-2'' ''0.9'' (Some ''more'') st')) =
             [FetchChat \<lparr> req_message = ''more'',
                          history = [\<lparr> human = ''hi'', ai = ''Hello'' \<rparr>],
                          conversation_id = ''conv-2'' \<rparr>]"
    by (simp add: messageValue_of_def demo_objects c h)
  with run hist load a show ?thesis by blast
qed

subsection \<open>C8: the loading flag during a stream\<close>

text \<open>
  Claim C8 says that the loading flag is true from the submission until the stream has
  run to completion or failed, so that a second submission is refused while a stream is
  in progress. A call made while the flag is true does return without a request and
  without a change of state. But \<open>processText\<close> clears the flag after every chunk, the
  first one included. Below, a first message is submitted and the first chunk of its
  response arrives: the call is still reading, the flag is already false, and a second
  submission sends a second request.
\<close>

theorem C8_flag_cleared_by_first_chunk:
  "(case sendMessage True ''conv-1'' ''0.25'' None ResponseWithBody demo_chat of
      (st1, effects1, status1) \<Rightarrow>
        isLoading st1
      \<and> status1 = Some (Reading initial_locals)
      \<and> (case processText demo_parse demo_marked ''0.7'' ''hi'' (ReadValue demo_chunk1)
                 initial_locals st1 of
            (st2, status2) \<Rightarrow>
              status2 = Reading \<lparr> accumulatedMessage = [], runId_local = Some ''r1'',
                                   sources_local = Some [], messageIndex = Some 1 \<rparr>
            \<and> \<not> isLoading st2
            \<and> filter isFetchChat
                 (snd (sendMessage_submit True ''conv-2'' ''0.9'' (Some ''again'') st2)) =
                 [FetchChat \<lparr> req_message = ''again'', history = [],
                              conversation_id = ''conv-2'' \<rparr>]))"
  by (simp add: sendMessage_def sendMessage_submit_def sendMessage_resume_def Let_def
      demo_chat_def messageValue_of_def processText_def demo_lines1 demo_trim_empty
      demo_parse_def consume_def initial_locals_def upsert_def)

subsection \<open>C9: storing the feedback\<close>

text \<open>
  Claim C9: a feedback submission sends its request with \<open>PATCH\<close> when a feedback id
  is already stored and with \<open>POST\<close> otherwise, and the stored feedback is replaced (by
  the score, run id, key and feedback id of the request) exactly when the reply carries
  \<open>code === 200\<close>; with any other reply, or when the request fails, the stored feedback
  stays as it is. A submission is a call that passes both guards of \<open>sendFeedback\<close>:
  the message has a run id and the bubble is not loading.
\<close>

theorem C9_feedback_stored_iff_code_200:
  assumes "\<not> fb_isLoading st"
  shows "\<exists>st1 req.
           sendFeedback_submit (Some run_id') uuid score' key' st = (st1, [FetchFeedback req])
         \<and> http_method req =
             (case feedback st of
                None \<Rightarrow> POST
              | Some f \<Rightarrow> if feedback_id f = [] then POST else PATCH)
         \<and> (\<forall>reply st'.
               feedback (fst (sendFeedback_resume req reply st')) =
                 (if reply = ReplyData (Some 200)
                  then Some \<lparr> feedback_id =
                                (case feedback st of None \<Rightarrow> uuid | Some f \<Rightarrow> feedback_id f),
                              run_id = run_id', key = key', score = score' \<rparr>
                  else feedback st'))"
  using assms
  by (auto simp: sendFeedback_submit_def sendFeedback_resume_def split: feedback_reply.splits)

theorem C9_feedback_stored_iff_code_200_witness:
  "\<not> fb_isLoading (ui bubble_initial)
   \<and> (\<exists>st1 req.
         sendFeedback_submit (Some ''run-1'') ''id-1'' 1 ''user_score'' (ui bubble_initial)
           = (st1, [FetchFeedback req])
       \<and> http_method req = POST
       \<and> feedback (fst (sendFeedback_resume req (ReplyData (Some 200)) st1)) =
             Some \<lparr> feedback_id = ''id-1'', run_id = ''run-1'', key = ''user_score'', score = 1 \<rparr>
       \<and> feedback (fst (sendFeedback_resume req (ReplyData (Some 500)) st1)) = feedback st1
       \<and> feedback (fst (sendFeedback_resume req (ReplyThrows ''Failed to fetch'') st1)) = feedback st1)"
proof -
  have a: "\<not> fb_isLoading (ui bubble_initial)" by (simp add: bubble_initial_def)
  have n: "feedback (ui bubble_initial) = None" by (simp add: bubble_initial_def)
  from C9_feedback_stored_iff_code_200[OF a, where run_id' = "''run-1''" and uuid = "''id-1''"
      and score' = 1 and key' = "''user_score''"]
  obtain st1 req where
    sub: "sendFeedback_submit (Some ''run-1'') ''id-1'' 1 ''user_score'' (ui bubble_initial)
           = (st1, [FetchFeedback req])"
    and meth: "http_method req = POST"
    and store: "\<And>reply st'. feedback (fst (sendFeedback_resume req reply st')) =
                 (if reply = ReplyData (Some 200)
                  then Some \<lparr> feedback_id = ''id-1'', run_id = ''run-1'',
                              key = ''user_score'', score = 1 \<rparr>
                  else feedback st')"
    by (auto simp: n)
  have "feedback (fst (sendFeedback_resume req (ReplyData (Some 200)) st1)) =
             Some \<lparr> feedback_id = ''id-1'', run_id = ''run-1'', key = ''user_score'', score = 1 \<rparr>"
    by (simp add: store)
  moreover have "feedback (fst (sendFeedback_resume req (ReplyData (Some 500)) st1)) = feedback st1"
    by (simp add: store)
  moreover have "feedback (fst (sendFeedback_resume req (ReplyThrows ''Failed to fetch'') st1)) = feedback st1"
    by (simp add: store)
  ultimately show ?thesis using a sub meth by blast
qed

subsection \<open>C10: submitting nothing\<close>

text \<open>
  Claim C10: a call of \<open>sendMessage\<close> without a message argument while the input field
  is the empty string does nothing that can be observed in the state or on the network:
  no HTTP request is sent, and the message list, the conversation history, the input
  field and the loading flag are left as they were.
\<close>

theorem C10_empty_input_is_noop:
  assumes "input st = []"
  shows "fst (sendMessage_submit containerSet conversationId randomId None st) = st
       \<and> filter isFetchChat
           (snd (sendMessage_submit containerSet conversationId randomId None st)) = []"
  using assms by (simp add: sendMessage_submit_def messageValue_of_def Let_def)

theorem C10_empty_input_is_noop_witness:
  "input (demo_chat\<lparr> input := [] \<rparr>) = []
   \<and> fst (sendMessage_submit True ''conv-1'' ''0.25'' None (demo_chat\<lparr> input := [] \<rparr>))
       = demo_chat\<lparr> input := [] \<rparr>
   \<and> filter isFetchChat
       (snd (sendMessage_submit True ''conv-1'' ''0.25'' None (demo_chat\<lparr> input := [] \<rparr>))) = []"
  using C10_empty_input_is_noop[of "demo_chat\<lparr> input := [] \<rparr>" True "''conv-1''" "''0.25''"]
  by simp

section \<open>Further properties\<close>

text \<open>
  The first half of C1 in general: in the filtered list no URL occurs twice, and the
  URLs of the filtered list are those of the source list.
\<close>

theorem filterSources_collapses_urls:
  "distinct (map url (filtered (filterSources srcs)))
   \<and> set (map url (filtered (filterSources srcs))) = set (map url srcs)"
proof -
  have "filter_inv \<lparr> filtered = [], urlMap = Map.empty, indexMap = Map.empty \<rparr>"
    by (simp add: filter_inv_def)
  from filter_inv_forEach[OF this, of srcs 0] show ?thesis
    by (simp add: filterSources_def filter_inv_def)
qed

text \<open>
  What the guard of \<open>createAnswerElements\<close> ensures, whatever the content, the filtered
  list and the index map: every citation element carries a source number below the
  length of the filtered list, and the source at that position.
\<close>

theorem citations_stay_in_range:
  "list_all (citation_in_range filteredSources)
     (createAnswerElements content' filteredSources sourceIndexMap)"
proof -
  have "list_all (citation_in_range filteredSources)
     (fst (answer_forEach content' filteredSources sourceIndexMap (matchAll content') 0 []))"
    by (rule answer_forEach_in_range) simp
  then show ?thesis
    by (auto simp: createAnswerElements_def citation_in_range_def split: prod.splits)
qed

text \<open>
  The part of C8 that holds: a call of \<open>sendMessage\<close> made while the loading flag is
  true sends no request and leaves the state as it is.
\<close>

theorem loading_call_is_noop:
  assumes "isLoading st"
  shows "fst (sendMessage_submit containerSet conversationId randomId message st) = st
       \<and> filter isFetchChat
           (snd (sendMessage_submit containerSet conversationId randomId message st)) = []"
  using assms by (simp add: sendMessage_submit_def Let_def)

theorem loading_call_is_noop_witness:
  "isLoading (demo_chat\<lparr> isLoading := True \<rparr>)
   \<and> fst (sendMessage_submit True ''conv-1'' ''0.25'' (Some ''again'') (demo_chat\<lparr> isLoading := True \<rparr>))
       = demo_chat\<lparr> isLoading := True \<rparr>
   \<and> filter isFetchChat
       (snd (sendMessage_submit True ''conv-1'' ''0.25'' (Some ''again'') (demo_chat\<lparr> isLoading := True \<rparr>))) = []"
  using loading_call_is_noop[of "demo_chat\<lparr> isLoading := True \<rparr>" True "''conv-1''" "''0.25''" "Some ''again''"]
  by simp

text \<open>
  What holds of a failed request when no other handler runs while the call awaits
  \<open>fetch\<close>: the message list is again as it was before the submission, the input field
  holds the submitted text, the loading flag is cleared, the history is untouched, and
  exactly one request has been sent.
\<close>

theorem isolated_failed_request_rolls_back:
  assumes "\<not> isLoading st" and "messageValue_of message st \<noteq> []"
  shows "case sendMessage containerSet conversationId randomId message FetchRejected st of
           (st', effects, status) \<Rightarrow>
             messages st' = messages st
           \<and> input st' = messageValue_of message st
           \<and> \<not> isLoading st'
           \<and> chatHistory st' = chatHistory st
           \<and> filter isFetchChat effects =
               [FetchChat \<lparr> req_message = messageValue_of message st,
                            history = chatHistory st,
                            conversation_id = conversationId \<rparr>]
           \<and> status = Some Rethrown"
  using assms
  by (simp add: sendMessage_def sendMessage_submit_def sendMessage_resume_def Let_def)

theorem isolated_failed_request_rolls_back_witness:
  "\<not> isLoading demo_chat \<and> messageValue_of None demo_chat \<noteq> []
   \<and> sendMessage True ''conv-1'' ''0.25'' None FetchRejected demo_chat =
       (demo_chat,
        [ClassListAdd ''grow'',
         FetchChat \<lparr> req_message = ''hi'', history = [], conversation_id = ''conv-1'' \<rparr>],
        Some Rethrown)"
proof -
  have a: "\<not> isLoading demo_chat" by (simp add: demo_chat_def)
  have b: "messageValue_of None demo_chat \<noteq> []" by (simp add: demo_chat_def messageValue_of_def)
  from isolated_failed_request_rolls_back[OF a b, where containerSet = True
      and conversationId = "''conv-1''" and randomId = "''0.25''"] a b
  show ?thesis
    by (simp add: sendMessage_def sendMessage_submit_def sendMessage_resume_def Let_def
        demo_chat_def messageValue_of_def)
qed

text \<open>
  What holds of a streamed response when no other handler changes the message list
  while it is read: after any non-empty sequence of chunks whose lines parse, the
  message list is the list from before the stream followed by one assistant message,
  whose content is the trimmed result of the formatter on the concatenation of all token
  fragments seen so far.
\<close>

theorem isolated_stream_keeps_one_slot:
  assumes "all_parse jsonParse (c # cs)"
  shows "read_all jsonParse marked randomId messageValue (map ReadValue (c # cs))
           (Reading initial_locals) st =
         (st\<lparr> messages := messages st @
                  [\<lparr> msg_id = randomId,
                     content = trim (marked (spec_buffer (objects_of jsonParse (c # cs)))),
                     role = Assistant,
                     runId = runId_local (consume_all (objects_of jsonParse (c # cs)) initial_locals),
                     sources = sources_local (consume_all (objects_of jsonParse (c # cs)) initial_locals) \<rparr>],
               isLoading := False \<rparr>,
          Reading ((consume_all (objects_of jsonParse (c # cs)) initial_locals)
                     \<lparr> messageIndex := Some (length (messages st)) \<rparr>))"
  unfolding read_all_first[OF assms]
  by (simp add: slot_of_def buffer_consume_all initial_locals_def)

theorem isolated_stream_keeps_one_slot_witness:
  "all_parse demo_parse [demo_chunk1, demo_chunk2]
   \<and> read_all demo_parse demo_marked ''0.7'' ''hi'' (map ReadValue [demo_chunk1, demo_chunk2])
       (Reading initial_locals) demo_chat =
       (\<lparr> messages =
            [\<lparr> msg_id = ''0.7'', content = ''Hello'', role = Assistant,
               runId = Some ''r1'', sources = Some [] \<rparr>],
          input = ''hi'', isLoading = False, chatHistory = [] \<rparr>,
        Reading \<lparr> accumulatedMessage = ''Hello'', runId_local = Some ''r1'',
                  sources_local = Some [], messageIndex = Some 0 \<rparr>)"
proof -
  have a: "all_parse demo_parse [demo_chunk1, demo_chunk2]"
    by (rule demo_all_parse)
  have c: "spec_buffer demo_objects = ''Hello''"
    by (simp add: demo_objects_def spec_buffer_def)
  have d: "consume_all demo_objects initial_locals =
      \<lparr> accumulatedMessage = ''Hello'', runId_local = Some ''r1'',
        sources_local = Some [], messageIndex = None \<rparr>"
    by (simp add: demo_objects_def consume_all_def consume_def initial_locals_def)
  from isolated_stream_keeps_one_slot[OF a, where marked = demo_marked
      and randomId = "''0.7''" and messageValue = "''hi''" and st = demo_chat]
  show ?thesis using a
    by (simp add: demo_objects c d demo_trim_Hello demo_chat_def)
qed

end
